theory Spec2Isabelle
  imports Complex_Main "HOL-Library.Product_Lexorder" "HOL-Library.Log_Nat"
begin

section \<open>The ARR rollforward pipeline of saas_data_engineering.py\<close>

text \<open>
  The pipeline reads three tables, derives per-row features (step 3), builds the monthly
  ARR summary and the rollforward bridge (step 4) and validates them (step 6).  The
  embedding follows the calculation steps of \<^verbatim>\<open>saas_data_engineering.py\<close> and the
  two endpoints of \<^verbatim>\<open>app.py\<close> that read its output.

  Conventions of the embedding.
  \<^item> A data frame is the list of its rows, in row order; a derived column is a function
    of the row.
  \<^item> Monetary amounts are finite double-precision numbers; such a number is the rational
    it denotes.  The sums, differences and sign changes of amounts in steps 4 and 6 are
    taken exactly.  The growth columns (lines 205-207) divide and round to two decimals,
    so there every operation rounds its exact result to the nearest double, as the
    arithmetic of the machine does (\<open>to_double\<close>), and the values that are not finite
    (missing/NaN, plus and minus infinity) are explicit constructors of \<open>fnum\<close>.  The
    two zeros of the format are not told apart.
  \<^item> Dates are calendar dates (year, month, day).  pandas parses a date-only string to
    midnight of that day and the month end that step 4 computes is a midnight too, so
    the comparisons of the source are comparisons of calendar dates.  A triple is
    ordered lexicographically, which is chronological order.
  \<^item> A missing \<^verbatim>\<open>end_date\<close> (NaT) is \<open>None\<close>.
  \<^item> Console output is not modelled.
\<close>

subsection \<open>Calendar: the datetime arithmetic used for the month end\<close>

type_synonym date = "nat \<times> nat \<times> nat"
type_synonym year_month = "nat \<times> nat"

definition is_leap :: "nat \<Rightarrow> bool" where
  "is_leap y = (y mod 4 = 0 \<and> (y mod 100 \<noteq> 0 \<or> y mod 400 = 0))"

definition days_in_month :: "nat \<Rightarrow> nat \<Rightarrow> nat" where
  "days_in_month y m =
     (if m = 2 then (if is_leap y then 29 else 28)
      else if m = 4 \<or> m = 6 \<or> m = 9 \<or> m = 11 then 30 else 31)"

fun next_day :: "date \<Rightarrow> date" where
  "next_day (y, m, d) =
     (if d < days_in_month y m then (y, m, d + 1)
      else if m < 12 then (y, m + 1, 1) else (y + 1, 1, 1))"

fun prev_day :: "date \<Rightarrow> date" where
  "prev_day (y, m, d) =
     (if 1 < d then (y, m, d - 1)
      else if 1 < m then (y, m - 1, days_in_month y (m - 1)) else (y - 1, 12, 31))"

text \<open>\<^verbatim>\<open>dt + timedelta(days=n)\<close> and \<^verbatim>\<open>dt - timedelta(days=n)\<close>.\<close>

fun plus_days :: "date \<Rightarrow> nat \<Rightarrow> date" where
  "plus_days dt 0 = dt"
| "plus_days dt (Suc n) = plus_days (next_day dt) n"

fun minus_days :: "date \<Rightarrow> nat \<Rightarrow> date" where
  "minus_days dt 0 = dt"
| "minus_days dt (Suc n) = minus_days (prev_day dt) n"

fun replace_day :: "date \<Rightarrow> nat \<Rightarrow> date" where
  "replace_day (y, m, d) d' = (y, m, d')"

fun day_of :: "date \<Rightarrow> nat" where
  "day_of (y, m, d) = d"

text \<open>
  Lines 177-179: \<^verbatim>\<open>month_date = strptime(month, '%Y-%m')\<close> is the first of the month;
  \<^verbatim>\<open>month_end = month_date.replace(day=28) + timedelta(days=4)\<close>, then
  \<^verbatim>\<open>month_end = month_end - timedelta(days=month_end.day)\<close>.
\<close>

fun month_end_of :: "year_month \<Rightarrow> date" where
  "month_end_of (y, m) =
     (let month_date = (y, m, 1);
          month_end = plus_days (replace_day month_date 28) 4
      in minus_days month_end (day_of month_end))"

subsection \<open>Input tables\<close>

record subscription =
  customer_id :: nat
  start_date :: date
  end_date :: "date option"
  arr_amount :: rat

record transaction =
  transaction_date :: date
  transaction_type :: string
  amount :: rat

subsection \<open>Step 3: feature engineering\<close>

fun year_month_of :: "date \<Rightarrow> year_month" where
  "year_month_of (y, m, d) = (y, m)"

text \<open>Column \<^verbatim>\<open>year_month\<close> (line 107).\<close>

definition year_month :: "transaction \<Rightarrow> year_month" where
  "year_month t = year_month_of (transaction_date t)"

text \<open>
  The activity filter, written twice in the source with the same shape: lines 118-121
  against \<^verbatim>\<open>current_date\<close> and lines 181-184 against \<^verbatim>\<open>month_end\<close>:
  \<^verbatim>\<open>(start_date <= d) & (end_date.isna() | (end_date > d))\<close>.
\<close>

definition active_on :: "date \<Rightarrow> subscription \<Rightarrow> bool" where
  "active_on d s =
     (start_date s \<le> d \<and> (case end_date s of None \<Rightarrow> True | Some e \<Rightarrow> d < e))"

text \<open>
  Column \<^verbatim>\<open>is_active\<close> (lines 118-121).  \<^verbatim>\<open>current_date\<close> is \<^verbatim>\<open>datetime.now()\<close>; a
  midnight is at or before it exactly when its day is at or before today, and after it
  exactly when its day is after today, so the date of the run stands for it.
\<close>

definition is_active :: "date \<Rightarrow> subscription \<Rightarrow> bool" where
  "is_active current_date s = active_on current_date s"

datatype segment = SMB | Mid_Market | Enterprise | Strategic

text \<open>
  \<^verbatim>\<open>pd.cut(x, bins, labels)\<close> with its defaults \<^verbatim>\<open>right=True, include_lowest=False\<close>:
  bin \<open>i\<close> is \<open>(bins[i], bins[i+1]]\<close>; a value in no bin gets no label.  The bins are
  given as the lowest edge and the list of (upper edge, label), the upper edge \<open>None\<close>
  standing for \<^verbatim>\<open>float('inf')\<close>.
\<close>

fun pd_cut :: "rat \<Rightarrow> (rat option \<times> 'a) list \<Rightarrow> rat \<Rightarrow> 'a option" where
  "pd_cut lo [] x = None"
| "pd_cut lo ((None, l) # bins) x = (if lo < x then Some l else None)"
| "pd_cut lo ((Some hi, l) # bins) x =
     (if lo < x \<and> x \<le> hi then Some l else pd_cut hi bins x)"

text \<open>Column \<^verbatim>\<open>customer_segment\<close> (lines 124-128).\<close>

definition customer_segment :: "subscription \<Rightarrow> segment option" where
  "customer_segment s =
     pd_cut 0 [(Some 600, SMB), (Some 2400, Mid_Market), (Some 6000, Enterprise),
               (None, Strategic)] (arr_amount s)"

text \<open>Column \<^verbatim>\<open>annualized_amount\<close> (lines 132-135).\<close>

definition annualized_amount :: "transaction \<Rightarrow> rat" where
  "annualized_amount row =
     (if transaction_type row \<in> set [''new'', ''expansion'', ''contraction'']
      then amount row * 12 else \<bar>amount row\<bar> * 12)"

subsection \<open>Step 4: monthly summary and rollforward bridge\<close>

datatype fnum = Fin rat | PosInf | NegInf | NaN

datatype error = KeyError | IndexError

record summary_row =
  sm_month :: year_month
  month_date :: date
  sm_new_arr :: rat
  sm_expansion_arr :: rat
  sm_contraction_arr :: rat
  sm_churned_arr :: rat
  net_new_arr :: rat
  current_arr :: rat
  active_customers :: nat
  arr_per_customer :: rat
  previous_arr :: "rat option"
  arr_growth_amount :: fnum
  arr_growth_rate :: fnum

record bridge_record =
  month :: year_month
  starting_arr :: rat
  new_arr :: rat
  expansion_arr :: rat
  contraction_arr :: rat
  churned_arr :: rat
  ending_arr :: rat
  net_change :: rat
  growth_rate :: fnum

text \<open>Line 162: \<^verbatim>\<open>sorted(transactions_df['year_month'].unique())\<close>.\<close>

definition all_months :: "transaction list \<Rightarrow> year_month list" where
  "all_months transactions = sort (remdups (map year_month transactions))"

text \<open>
  Lines 171-174: the sum of \<^verbatim>\<open>annualized_amount\<close> over the month's transactions of
  one type (the sum of an empty selection is 0).
\<close>

definition type_sum :: "string \<Rightarrow> transaction list \<Rightarrow> rat" where
  "type_sum ty month_transactions =
     sum_list (map annualized_amount
                 (filter (\<lambda>t. transaction_type t = ty) month_transactions))"

text \<open>Lines 181-187: the subscriptions active at the month end, their ARR, their number.\<close>

definition active_subs_month :: "subscription list \<Rightarrow> date \<Rightarrow> subscription list" where
  "active_subs_month subscriptions month_end = filter (active_on month_end) subscriptions"

definition month_arr :: "subscription list \<Rightarrow> date \<Rightarrow> rat" where
  "month_arr subscriptions month_end =
     sum_list (map arr_amount (active_subs_month subscriptions month_end))"

definition month_customers :: "subscription list \<Rightarrow> date \<Rightarrow> nat" where
  "month_customers subscriptions month_end =
     length (active_subs_month subscriptions month_end)"

text \<open>
  One pass of the loop of lines 166-200.  The three growth columns are filled in
  afterwards (lines 205-207).
\<close>

definition monthly_row ::
  "subscription list \<Rightarrow> transaction list \<Rightarrow> year_month \<Rightarrow> summary_row" where
  "monthly_row subscriptions transactions m =
     (let month_transactions = filter (\<lambda>t. year_month t = m) transactions;
          new = type_sum ''new'' month_transactions;
          expansion = type_sum ''expansion'' month_transactions;
          contraction = type_sum ''contraction'' month_transactions;
          churned = type_sum ''churn'' month_transactions;
          month_end = month_end_of m;
          arr = month_arr subscriptions month_end;
          customers = month_customers subscriptions month_end
      in \<lparr> sm_month = m, month_date = month_end,
           sm_new_arr = new, sm_expansion_arr = expansion,
           sm_contraction_arr = contraction, sm_churned_arr = churned,
           net_new_arr = new + expansion - contraction - churned,
           current_arr = arr, active_customers = customers,
           arr_per_customer = (if customers > 0 then arr / of_nat customers else 0),
           previous_arr = None, arr_growth_amount = NaN, arr_growth_rate = NaN \<rparr>)"

definition monthly_arr_data ::
  "subscription list \<Rightarrow> transaction list \<Rightarrow> summary_row list" where
  "monthly_arr_data subscriptions transactions =
     map (monthly_row subscriptions transactions) (all_months transactions)"

text \<open>Rounding to the nearest integer, ties to the even one (numpy's \<^verbatim>\<open>rint\<close>).\<close>

definition rint :: "rat \<Rightarrow> int" where
  "rint x =
     (let f = \<lfloor>x\<rfloor>; r = x - of_int f
      in if r < 1 / 2 then f else if r > 1 / 2 then f + 1
         else if even f then f else f + 1)"

text \<open>
  Double precision (IEEE 754 binary64).  For \<open>x > 0\<close>, \<open>ilog2 x\<close> is the integer \<open>k\<close>
  with \<open>2 ^ k \<le> x < 2 ^ (k + 1)\<close>.  The doubles around \<open>x\<close> are the multiples of
  \<open>2 ^ e\<close> with \<open>e = k - 52\<close> (53 significant bits), and those of \<open>2 ^ (- 1074)\<close> in the
  subnormal range.  \<open>to_double x\<close> is the result of an operation whose exact result is
  \<open>x\<close>: the nearest such multiple, ties to the even one, and an infinity when that is
  \<open>2 ^ 1024\<close> or more.
\<close>

definition ilog2 :: "rat \<Rightarrow> int" where
  "ilog2 x = (if 1 \<le> x then bitlen \<lfloor>x\<rfloor> - 1 else - bitlen (\<lceil>1 / x\<rceil> - 1))"

definition to_double :: "rat \<Rightarrow> fnum" where
  "to_double x =
     (if x = 0 then Fin 0
      else let e = max (ilog2 \<bar>x\<bar> - 52) (- 1074);
               r = of_int (rint (\<bar>x\<bar> / 2 powi e)) * 2 powi e
           in if 2 ^ 1024 \<le> r then (if 0 < x then PosInf else NegInf)
              else Fin (if 0 < x then r else - r))"

text \<open>
  The float operations of line 207, with a finite second operand: the difference of two
  finite numbers, a quotient (a zero divisor gives an infinity or NaN and does not
  raise), a product, and \<^verbatim>\<open>rint\<close>.
\<close>

definition fsub :: "rat \<Rightarrow> rat \<Rightarrow> fnum" where
  "fsub a b = to_double (a - b)"

fun fdiv :: "fnum \<Rightarrow> rat \<Rightarrow> fnum" where
  "fdiv (Fin a) b =
     (if b \<noteq> 0 then to_double (a / b)
      else if 0 < a then PosInf else if a < 0 then NegInf else NaN)"
| "fdiv PosInf b = (if b < 0 then NegInf else PosInf)"
| "fdiv NegInf b = (if b < 0 then PosInf else NegInf)"
| "fdiv NaN b = NaN"

fun fmul :: "fnum \<Rightarrow> rat \<Rightarrow> fnum" where
  "fmul (Fin a) c = to_double (a * c)"
| "fmul PosInf c = (if 0 < c then PosInf else if c < 0 then NegInf else NaN)"
| "fmul NegInf c = (if 0 < c then NegInf else if c < 0 then PosInf else NaN)"
| "fmul NaN c = NaN"

fun frint :: "fnum \<Rightarrow> fnum" where
  "frint (Fin a) = Fin (of_int (rint a))"
| "frint v = v"

text \<open>
  \<^verbatim>\<open>.round(2)\<close> on one entry of a float column, as numpy computes it: multiply by
  100, \<^verbatim>\<open>rint\<close>, divide by 100.
\<close>

definition round2 :: "fnum \<Rightarrow> fnum" where
  "round2 v = fdiv (frint (fmul v 100)) 100"

text \<open>
  Lines 205-207 for the row at position \<open>i\<close>: \<^verbatim>\<open>shift(1)\<close> leaves the first entry
  missing, and arithmetic on a missing entry is missing (NaN).
\<close>

definition growth_columns :: "summary_row list \<Rightarrow> nat \<Rightarrow> summary_row" where
  "growth_columns rows i =
     (let row = rows ! i;
          previous = (if i = 0 then None else Some (current_arr (rows ! (i - 1))));
          growth_amount =
            (case previous of None \<Rightarrow> NaN | Some p \<Rightarrow> fsub (current_arr row) p);
          growth_rate =
            (case previous of
               None \<Rightarrow> NaN
             | Some p \<Rightarrow> round2 (fmul (fdiv growth_amount p) 100))
      in row \<lparr> previous_arr := previous, arr_growth_amount := growth_amount,
               arr_growth_rate := growth_rate \<rparr>)"

definition arr_summary :: "subscription list \<Rightarrow> transaction list \<Rightarrow> summary_row list" where
  "arr_summary subscriptions transactions =
     (let rows = monthly_arr_data subscriptions transactions
      in map (growth_columns rows) [0..<length rows])"

text \<open>One pass of the loop of lines 213-226, for the row at position \<open>i\<close>.\<close>

definition rollforward_row :: "summary_row list \<Rightarrow> nat \<Rightarrow> bridge_record" where
  "rollforward_row arr_summary_df i =
     (let row = arr_summary_df ! i;
          starting = (if i = 0 then 0 else current_arr (arr_summary_df ! (i - 1)))
      in \<lparr> month = sm_month row,
           starting_arr = starting,
           new_arr = sm_new_arr row,
           expansion_arr = sm_expansion_arr row,
           contraction_arr = - sm_contraction_arr row,
           churned_arr = - sm_churned_arr row,
           ending_arr = current_arr row,
           net_change = net_new_arr row,
           growth_rate = arr_growth_rate row \<rparr>)"

definition rollforward_data :: "summary_row list \<Rightarrow> bridge_record list" where
  "rollforward_data arr_summary_df =
     map (rollforward_row arr_summary_df) [0..<length arr_summary_df]"

text \<open>
  The whole of step 4.  With no transaction there is no month, the summary frame has no
  column and reading \<^verbatim>\<open>current_arr\<close> from it (line 205) raises \<^verbatim>\<open>KeyError\<close>.
\<close>

definition step4_arr_calculations ::
  "subscription list \<Rightarrow> transaction list \<Rightarrow> error + (summary_row list \<times> bridge_record list)" where
  "step4_arr_calculations subscriptions transactions =
     (if all_months transactions = [] then Inl KeyError
      else let arr_summary_df = arr_summary subscriptions transactions
           in Inr (arr_summary_df, rollforward_data arr_summary_df))"

subsection \<open>Step 6: validation\<close>

text \<open>
  The issues are strings in the source; the two that interpolate a number carry it here,
  the rollforward one is a fixed text.
\<close>

datatype issue =
  ArrPerCustomerOutsideRange rat
| GrowthRateUnrealistic fnum
| RollforwardMathWrong

text \<open>
  \<^verbatim>\<open>arr_summary_df['arr_growth_rate'].mean()\<close>: missing entries are skipped, the mean of
  no entry is missing, an infinity dominates and opposite infinities give NaN.
\<close>

fun fin_values :: "fnum list \<Rightarrow> rat list" where
  "fin_values [] = []"
| "fin_values (Fin x # vs) = x # fin_values vs"
| "fin_values (v # vs) = fin_values vs"

definition column_mean :: "fnum list \<Rightarrow> fnum" where
  "column_mean col =
     (let vs = filter (\<lambda>v. v \<noteq> NaN) col
      in if vs = [] then NaN
         else if PosInf \<in> set vs \<and> NegInf \<in> set vs then NaN
         else if PosInf \<in> set vs then PosInf
         else if NegInf \<in> set vs then NegInf
         else Fin (sum_list (fin_values vs) / of_nat (length vs)))"

text \<open>Float comparison with a finite bound; any comparison with NaN is false.\<close>

fun fnum_less :: "fnum \<Rightarrow> rat \<Rightarrow> bool" where
  "fnum_less (Fin x) b = (x < b)"
| "fnum_less NegInf b = True"
| "fnum_less v b = False"

fun fnum_greater :: "fnum \<Rightarrow> rat \<Rightarrow> bool" where
  "fnum_greater (Fin x) b = (x > b)"
| "fnum_greater PosInf b = True"
| "fnum_greater v b = False"

text \<open>Lines 301-303.\<close>

definition calculated_ending :: "bridge_record \<Rightarrow> rat" where
  "calculated_ending rollforward_check =
     starting_arr rollforward_check + new_arr rollforward_check +
     expansion_arr rollforward_check + contraction_arr rollforward_check +
     churned_arr rollforward_check"

text \<open>
  Lines 277-306: the list \<^verbatim>\<open>validation_issues\<close>.  \<^verbatim>\<open>iloc[-1]\<close> on a frame without
  rows raises \<^verbatim>\<open>IndexError\<close>.
\<close>

definition validation_issues ::
  "summary_row list \<Rightarrow> bridge_record list \<Rightarrow> error + issue list" where
  "validation_issues arr_summary_df arr_rollforward_df =
     (if arr_summary_df = [] \<or> arr_rollforward_df = [] then Inl IndexError
      else
        let latest_month = last arr_summary_df;
            avg_arr_per_customer = arr_per_customer latest_month;
            range_issue =
              (if avg_arr_per_customer < 300 \<or> avg_arr_per_customer > 5000
               then [ArrPerCustomerOutsideRange avg_arr_per_customer] else []);
            avg_growth = column_mean (map arr_growth_rate arr_summary_df);
            growth_issue =
              (if fnum_less avg_growth (- 10) \<or> fnum_greater avg_growth 50
               then [GrowthRateUnrealistic avg_growth] else []);
            rollforward_check = last arr_rollforward_df;
            math_issue =
              (if \<bar>calculated_ending rollforward_check - ending_arr rollforward_check\<bar> > 100
               then [RollforwardMathWrong] else [])
        in Inr (range_issue @ growth_issue @ math_issue))"



subsection \<open>The endpoints of app.py that read the tables\<close>


record segment_row =
  seg :: segment
  arr :: rat
  customers :: nat
  percentage :: rat

text \<open>
  \<^verbatim>\<open>get_segments\<close> (lines 92-110).  \<^verbatim>\<open>groupby('customer_segment')\<close> makes one group for
  each label that occurs, in the order of the label strings (Enterprise, Mid-Market, SMB,
  Strategic), and drops the rows without a label.
\<close>

definition segment_group :: "subscription list \<Rightarrow> segment \<Rightarrow> subscription list" where
  "segment_group active_subs l = filter (\<lambda>s. customer_segment s = Some l) active_subs"

definition segment_data :: "subscription list \<Rightarrow> (segment \<times> rat \<times> nat) list" where
  "segment_data active_subs =
     map (\<lambda>l. (l, sum_list (map arr_amount (segment_group active_subs l)),
                 length (segment_group active_subs l)))
         (filter (\<lambda>l. segment_group active_subs l \<noteq> [])
                 [Enterprise, Mid_Market, SMB, Strategic])"

definition get_segments :: "date \<Rightarrow> subscription list \<Rightarrow> segment_row list" where
  "get_segments current_date subscriptions =
     (let active_subs = filter (is_active current_date) subscriptions;
          data = segment_data active_subs;
          total_arr = sum_list (map (\<lambda>(l, a, n). a) data)
      in map (\<lambda>(l, a, n).
                \<lparr> seg = l, arr = a, customers = n,
                  percentage = (if total_arr > 0 then a / total_arr * 100 else 0) \<rparr>)
             data)"

subsection \<open>Example inputs\<close>

text \<open>
  One subscription of 1200 a year from 15 January 2024 with no end date, and a ledger
  with a new sale in January, then a contraction and a churn in March, both recorded as
  negative amounts.  February has no transaction.
\<close>

definition ex_subs :: "subscription list" where
  "ex_subs =
     [\<lparr>customer_id = 1, start_date = (2024, 1, 15), end_date = None, arr_amount = 1200\<rparr>]"

definition ex_txs :: "transaction list" where
  "ex_txs =
     [\<lparr>transaction_date = (2024, 1, 15), transaction_type = ''new'', amount = 1\<rparr>,
      \<lparr>transaction_date = (2024, 3, 2), transaction_type = ''contraction'', amount = - 10\<rparr>,
      \<lparr>transaction_date = (2024, 3, 5), transaction_type = ''churn'', amount = - 5\<rparr>]"

text \<open>A subscription that ends on the last day of February 2024.\<close>

definition ex_boundary_sub :: subscription where
  "ex_boundary_sub =
     \<lparr>customer_id = 2, start_date = (2024, 1, 1), end_date = Some (2024, 2, 29),
      arr_amount = 600\<rparr>"

text \<open>A ledger whose only month precedes every subscription of \<open>ex_subs\<close>.\<close>

definition ex_early_txs :: "transaction list" where
  "ex_early_txs =
     [\<lparr>transaction_date = (2023, 12, 10), transaction_type = ''new'', amount = 100\<rparr>]"


text \<open>An open-ended subscription whose \<open>arr_amount\<close> is 0.\<close>

definition ex_zero_sub :: subscription where
  "ex_zero_sub =
     \<lparr>customer_id = 3, start_date = (2024, 1, 1), end_date = None, arr_amount = 0\<rparr>"

text \<open>
  Two faulty subscriptions, one with a negative amount and one that ends before it starts,
  and a ledger for January 2024 that reconciles with \<open>ex_negative_sub # ex_subs\<close>.
\<close>

definition ex_negative_sub :: subscription where
  "ex_negative_sub =
     \<lparr>customer_id = 4, start_date = (2024, 1, 2), end_date = None, arr_amount = - 240\<rparr>"

definition ex_inverted_sub :: subscription where
  "ex_inverted_sub =
     \<lparr>customer_id = 5, start_date = (2024, 1, 20), end_date = Some (2024, 1, 10),
      arr_amount = 500\<rparr>"

definition ex_jan_txs :: "transaction list" where
  "ex_jan_txs =
     [\<lparr>transaction_date = (2024, 1, 15), transaction_type = ''new'', amount = 100\<rparr>,
      \<lparr>transaction_date = (2024, 1, 20), transaction_type = ''contraction'', amount = 20\<rparr>]"

section \<open>Properties\<close>

subsection \<open>Evaluation and structure lemmas\<close>

declare month_end_of.simps [simp del]

lemma plus_days_numeral:
  "plus_days dt (numeral k) = plus_days (next_day dt) (pred_numeral k)"
  by (simp add: numeral_eq_Suc)

lemma minus_days_numeral:
  "minus_days dt (numeral k) = minus_days (prev_day dt) (pred_numeral k)"
  by (simp add: numeral_eq_Suc)

lemma month_end_last_day:
  assumes "1 \<le> m" "m \<le> 12"
  shows "month_end_of (y, m) = (y, m, days_in_month y m)"
proof -
  from assms have "m = 1 \<or> m = 2 \<or> m = 3 \<or> m = 4 \<or> m = 5 \<or> m = 6 \<or> m = 7 \<or> m = 8
      \<or> m = 9 \<or> m = 10 \<or> m = 11 \<or> m = 12"
    by arith
  then show ?thesis
    by (elim disjE)
       (simp_all add: month_end_of.simps plus_days_numeral minus_days_numeral
          days_in_month_def)
qed

lemmas calendar_eval = month_end_of.simps plus_days_numeral minus_days_numeral
  days_in_month_def is_leap_def

lemmas pipeline_eval = monthly_arr_data_def all_months_def monthly_row_def Let_def
  year_month_def type_sum_def annualized_amount_def month_arr_def month_customers_def
  active_subs_month_def active_on_def


lemma rint_zero: "rint 0 = 0"
  by (simp add: rint_def)




lemma to_double_zero: "to_double 0 = Fin 0"
  by (simp add: to_double_def)


lemmas float_zero_eval = fsub_def round2_def to_double_zero rint_zero

lemma step4_InrD:
  assumes "step4_arr_calculations subs txs = Inr (summary, chain)"
  shows "all_months txs \<noteq> []" and "summary = arr_summary subs txs"
    and "chain = rollforward_data summary"
  using assms by (auto simp: step4_arr_calculations_def Let_def split: if_splits)

lemma length_monthly_arr_data:
  "length (monthly_arr_data subs txs) = length (all_months txs)"
  by (simp add: monthly_arr_data_def)

lemma length_arr_summary: "length (arr_summary subs txs) = length (all_months txs)"
  by (simp add: arr_summary_def Let_def length_monthly_arr_data)

lemma length_rollforward_data: "length (rollforward_data S) = length S"
  by (simp add: rollforward_data_def)

lemma nth_rollforward_data:
  "i < length S \<Longrightarrow> rollforward_data S ! i = rollforward_row S i"
  by (simp add: rollforward_data_def)

lemma nth_arr_summary:
  "i < length (all_months txs) \<Longrightarrow>
   arr_summary subs txs ! i = growth_columns (monthly_arr_data subs txs) i"
  by (simp add: arr_summary_def Let_def length_monthly_arr_data)

lemma nth_monthly_arr_data:
  "i < length (all_months txs) \<Longrightarrow>
   monthly_arr_data subs txs ! i = monthly_row subs txs (all_months txs ! i)"
  by (simp add: monthly_arr_data_def)

lemma current_arr_summary:
  "i < length (all_months txs) \<Longrightarrow>
   current_arr (arr_summary subs txs ! i) = month_arr subs (month_end_of (all_months txs ! i))"
  by (simp add: nth_arr_summary nth_monthly_arr_data growth_columns_def monthly_row_def Let_def)

lemma sm_month_summary:
  "i < length (all_months txs) \<Longrightarrow> sm_month (arr_summary subs txs ! i) = all_months txs ! i"
  by (simp add: nth_arr_summary nth_monthly_arr_data growth_columns_def monthly_row_def Let_def)

lemma customers_summary:
  "i < length (all_months txs) \<Longrightarrow>
   active_customers (arr_summary subs txs ! i)
     = month_customers subs (month_end_of (all_months txs ! i))"
  by (simp add: nth_arr_summary nth_monthly_arr_data growth_columns_def monthly_row_def Let_def)

lemma arr_per_customer_summary:
  "i < length (all_months txs) \<Longrightarrow>
   arr_per_customer (arr_summary subs txs ! i)
     = (if active_customers (arr_summary subs txs ! i) > 0
        then current_arr (arr_summary subs txs ! i)
               / of_nat (active_customers (arr_summary subs txs ! i))
        else 0)"
  by (simp add: nth_arr_summary nth_monthly_arr_data growth_columns_def monthly_row_def Let_def)


lemma rollforward_first:
  "S \<noteq> [] \<Longrightarrow> starting_arr (rollforward_data S ! 0) = 0"
  by (simp add: nth_rollforward_data rollforward_row_def Let_def)

lemma rollforward_link:
  "0 < i \<Longrightarrow> i < length S \<Longrightarrow>
   starting_arr (rollforward_data S ! i) = ending_arr (rollforward_data S ! (i - 1))"
  by (simp add: nth_rollforward_data rollforward_row_def Let_def)

lemma rollforward_ending:
  "i < length S \<Longrightarrow> ending_arr (rollforward_data S ! i) = current_arr (S ! i)"
  by (simp add: nth_rollforward_data rollforward_row_def Let_def)

text \<open>The pipeline on the example inputs.\<close>

lemma ex_all_months: "all_months ex_txs = [(2024, 1), (2024, 3)]"
  by (simp add: all_months_def ex_txs_def year_month_def)

lemma month_end_2024_1: "month_end_of (2024, 1) = (2024, 1, 31)"
  by (simp add: calendar_eval)

lemma month_end_2024_3: "month_end_of (2024, 3) = (2024, 3, 31)"
  by (simp add: calendar_eval)

lemma ex_summary: "arr_summary ex_subs ex_txs =
  [\<lparr>sm_month = (2024, 1), month_date = (2024, 1, 31), sm_new_arr = 12,
          sm_expansion_arr = 0, sm_contraction_arr = 0, sm_churned_arr = 0,
          net_new_arr = 12, current_arr = 1200, active_customers = 1, arr_per_customer = 1200,
          previous_arr = None, arr_growth_amount = NaN, arr_growth_rate = NaN\<rparr>,
   \<lparr>sm_month = (2024, 3), month_date = (2024, 3, 31), sm_new_arr = 0,
          sm_expansion_arr = 0, sm_contraction_arr = - 120, sm_churned_arr = 60,
          net_new_arr = 60, current_arr = 1200, active_customers = 1, arr_per_customer = 1200,
          previous_arr = Some 1200, arr_growth_amount = Fin 0, arr_growth_rate = Fin 0\<rparr>]"
  by (simp add: arr_summary_def pipeline_eval calendar_eval ex_txs_def ex_subs_def
      growth_columns_def float_zero_eval upt_rec)

lemma ex_chain: "rollforward_data (arr_summary ex_subs ex_txs) =
  [\<lparr>month = (2024, 1), starting_arr = 0, new_arr = 12, expansion_arr = 0, contraction_arr = 0,
     churned_arr = 0, ending_arr = 1200, net_change = 12, growth_rate = NaN\<rparr>,
   \<lparr>month = (2024, 3), starting_arr = 1200, new_arr = 0, expansion_arr = 0, contraction_arr = 120,
     churned_arr = - 60, ending_arr = 1200, net_change = 60, growth_rate = Fin 0\<rparr>]"
  unfolding ex_summary
  by (simp add: rollforward_data_def rollforward_row_def Let_def upt_rec)

lemma ex_step4: "step4_arr_calculations ex_subs ex_txs =
   Inr (arr_summary ex_subs ex_txs, rollforward_data (arr_summary ex_subs ex_txs))"
  by (simp add: step4_arr_calculations_def ex_all_months Let_def)


lemma active_on_iff:
  "active_on d s \<longleftrightarrow>
     start_date s \<le> d \<and> (end_date s = None \<or> (\<exists>e. end_date s = Some e \<and> d < e))"
  by (cases "end_date s") (simp_all add: active_on_def)

lemma not_active_on_end_date: "end_date s = Some d \<Longrightarrow> \<not> active_on d s"
  by (simp add: active_on_def)

lemma month_arr_Cons:
  "month_arr (s # subs) d = (if active_on d s then arr_amount s + month_arr subs d else month_arr subs d)"
  by (simp add: month_arr_def active_subs_month_def)

lemma month_customers_Cons:
  "month_customers (s # subs) d
     = (if active_on d s then Suc (month_customers subs d) else month_customers subs d)"
  by (simp add: month_customers_def active_subs_month_def)

lemma monthly_row_snapshot:
  "current_arr (monthly_row subs txs ym) = month_arr subs (month_end_of ym)"
  "active_customers (monthly_row subs txs ym) = month_customers subs (month_end_of ym)"
  by (simp_all add: monthly_row_def Let_def)

lemma type_sum_none:
  "(\<forall>t \<in> set ts. transaction_type t \<noteq> ty) \<Longrightarrow> type_sum ty ts = 0"
  by (simp add: type_sum_def)

lemma monthly_row_sums:
  "sm_new_arr (monthly_row subs txs ym) = type_sum ''new'' (filter (\<lambda>t. year_month t = ym) txs)"
  "sm_expansion_arr (monthly_row subs txs ym)
     = type_sum ''expansion'' (filter (\<lambda>t. year_month t = ym) txs)"
  "sm_contraction_arr (monthly_row subs txs ym)
     = type_sum ''contraction'' (filter (\<lambda>t. year_month t = ym) txs)"
  "sm_churned_arr (monthly_row subs txs ym)
     = type_sum ''churn'' (filter (\<lambda>t. year_month t = ym) txs)"
  by (simp_all add: monthly_row_def Let_def)

lemma summary_row_sums:
  assumes "i < length (all_months txs)"
  shows "sm_new_arr (arr_summary subs txs ! i)
           = sm_new_arr (monthly_row subs txs (all_months txs ! i))"
    and "sm_expansion_arr (arr_summary subs txs ! i)
           = sm_expansion_arr (monthly_row subs txs (all_months txs ! i))"
    and "sm_contraction_arr (arr_summary subs txs ! i)
           = sm_contraction_arr (monthly_row subs txs (all_months txs ! i))"
    and "sm_churned_arr (arr_summary subs txs ! i)
           = sm_churned_arr (monthly_row subs txs (all_months txs ! i))"
  using assms by (simp_all add: nth_arr_summary nth_monthly_arr_data growth_columns_def Let_def)

lemma map_sm_month_summary: "map sm_month (arr_summary subs txs) = all_months txs"
  by (rule nth_equalityI) (simp_all add: length_arr_summary sm_month_summary)

lemma map_month_rollforward: "map month (rollforward_data S) = map sm_month S"
  by (rule nth_equalityI)
     (simp_all add: length_rollforward_data nth_rollforward_data rollforward_row_def Let_def)

lemma all_months_props:
  "distinct (all_months txs)" "sorted (all_months txs)"
  "set (all_months txs) = year_month ` set txs"
  by (simp_all add: all_months_def)

lemma rollforward_components:
  assumes "i < length S"
  shows "new_arr (rollforward_data S ! i) = sm_new_arr (S ! i)"
    and "expansion_arr (rollforward_data S ! i) = sm_expansion_arr (S ! i)"
    and "contraction_arr (rollforward_data S ! i) = - sm_contraction_arr (S ! i)"
    and "churned_arr (rollforward_data S ! i) = - sm_churned_arr (S ! i)"
    and "net_change (rollforward_data S ! i) = net_new_arr (S ! i)"
    and "growth_rate (rollforward_data S ! i) = arr_growth_rate (S ! i)"
  using assms by (simp_all add: nth_rollforward_data rollforward_row_def Let_def)

lemma ex_early_summary:
  "arr_summary ex_subs ex_early_txs =
     [\<lparr>sm_month = (2023, 12), month_date = (2023, 12, 31), sm_new_arr = 1200,
       sm_expansion_arr = 0, sm_contraction_arr = 0, sm_churned_arr = 0,
       net_new_arr = 1200, current_arr = 0, active_customers = 0, arr_per_customer = 0,
       previous_arr = None, arr_growth_amount = NaN, arr_growth_rate = NaN\<rparr>]"
  by (simp add: arr_summary_def pipeline_eval calendar_eval ex_early_txs_def ex_subs_def
      growth_columns_def)

lemma ex_early_step4:
  "step4_arr_calculations ex_subs ex_early_txs =
     Inr (arr_summary ex_subs ex_early_txs, rollforward_data (arr_summary ex_subs ex_early_txs))"
  by (simp add: step4_arr_calculations_def all_months_def ex_early_txs_def Let_def)

lemma type_sum_churn_nonneg: "0 \<le> type_sum ''churn'' ts"
  by (induction ts) (simp_all add: type_sum_def annualized_amount_def)

lemma churned_arr_nonpositive:
  "i < length (all_months txs) \<Longrightarrow>
   churned_arr (rollforward_data (arr_summary subs txs) ! i) \<le> 0"
  by (simp add: rollforward_components length_arr_summary summary_row_sums monthly_row_sums
      type_sum_churn_nonneg)






lemma customer_segment_cases:
  "customer_segment s =
     (if 0 < arr_amount s \<and> arr_amount s \<le> 600 then Some SMB
      else if 600 < arr_amount s \<and> arr_amount s \<le> 2400 then Some Mid_Market
      else if 2400 < arr_amount s \<and> arr_amount s \<le> 6000 then Some Enterprise
      else if 6000 < arr_amount s then Some Strategic else None)"
  by (simp add: customer_segment_def)

lemma segment_group_labelled:
  "segment_group (filter P subs) l
     = segment_group (filter P (filter (\<lambda>s. customer_segment s \<noteq> None) subs)) l"
  unfolding segment_group_def filter_filter by (rule filter_cong) auto

lemma segment_data_labelled:
  "segment_data (filter P subs)
     = segment_data (filter P (filter (\<lambda>s. customer_segment s \<noteq> None) subs))"
  unfolding segment_data_def
  by (simp only: segment_group_labelled [of P subs])

lemma get_segments_labelled:
  "get_segments cd subs = get_segments cd (filter (\<lambda>s. customer_segment s \<noteq> None) subs)"
  unfolding get_segments_def Let_def
  by (simp only: segment_data_labelled [of "is_active cd" subs])

lemma get_segments_unlabelled_Cons:
  "customer_segment s = None \<Longrightarrow> get_segments cd (s # subs) = get_segments cd subs"
  by (subst get_segments_labelled, subst (2) get_segments_labelled) simp

lemma get_segments_inactive_Cons:
  "\<not> is_active cd s \<Longrightarrow> get_segments cd (s # subs) = get_segments cd subs"
  by (simp add: get_segments_def)

lemma get_segments_drop_zero:
  "get_segments cd subs = get_segments cd (filter (\<lambda>s. arr_amount s \<noteq> 0) subs)"
proof -
  have "filter (\<lambda>s. customer_segment s \<noteq> None) (filter (\<lambda>s. arr_amount s \<noteq> 0) subs)
      = filter (\<lambda>s. customer_segment s \<noteq> None) subs"
    unfolding filter_filter by (rule filter_cong) (auto simp: customer_segment_cases)
  then show ?thesis
    by (subst get_segments_labelled, subst (2) get_segments_labelled) simp
qed

lemma ex_segments:
  "get_segments (2024, 6, 1) ex_subs
     = [\<lparr>seg = Mid_Market, arr = 1200, customers = 1, percentage = 100\<rparr>]"
  by (simp add: get_segments_def segment_data_def segment_group_def customer_segment_cases
      is_active_def active_on_def ex_subs_def)

lemma inverted_never_active:
  "end_date s = Some e \<Longrightarrow> e \<le> start_date s \<Longrightarrow> \<not> active_on d s"
  by (auto simp: active_on_def)

lemma all_months_nonempty: "txs \<noteq> [] \<Longrightarrow> all_months txs \<noteq> []"
proof -
  assume "txs \<noteq> []"
  then have "set (all_months txs) \<noteq> {}"
    by (simp add: all_months_props)
  then show ?thesis by auto
qed

lemma validation_issues_bound:
  "validation_issues S C = Inr issues \<Longrightarrow> length issues \<le> 3"
  by (auto simp: validation_issues_def Let_def split: if_splits)

lemma step4_then_step6_returns:
  assumes "txs \<noteq> []"
  shows "\<exists>summary chain issues.
           step4_arr_calculations subs txs = Inr (summary, chain)
         \<and> validation_issues summary chain = Inr issues \<and> length issues \<le> 3"
proof -
  let ?S = "arr_summary subs txs"
  have m: "all_months txs \<noteq> []"
    using assms by (rule all_months_nonempty)
  then have s4: "step4_arr_calculations subs txs = Inr (?S, rollforward_data ?S)"
    by (simp add: step4_arr_calculations_def Let_def)
  have "length ?S \<noteq> 0" "length (rollforward_data ?S) \<noteq> 0"
    using m by (simp_all add: length_arr_summary length_rollforward_data)
  then have ne: "?S \<noteq> []" "rollforward_data ?S \<noteq> []"
    by auto
  then obtain issues where i: "validation_issues ?S (rollforward_data ?S) = Inr issues"
    by (simp add: validation_issues_def Let_def)
  with s4 validation_issues_bound [OF i] show ?thesis by blast
qed

lemma ex_negative_summary:
  "arr_summary (ex_negative_sub # ex_subs) ex_jan_txs =
     [\<lparr>sm_month = (2024, 1), month_date = (2024, 1, 31), sm_new_arr = 1200,
       sm_expansion_arr = 0, sm_contraction_arr = 240, sm_churned_arr = 0,
       net_new_arr = 960, current_arr = 960, active_customers = 2, arr_per_customer = 480,
       previous_arr = None, arr_growth_amount = NaN, arr_growth_rate = NaN\<rparr>]"
  by (simp add: arr_summary_def pipeline_eval calendar_eval ex_jan_txs_def ex_subs_def
      ex_negative_sub_def growth_columns_def)

lemma ex_negative_step4:
  "step4_arr_calculations (ex_negative_sub # ex_subs) ex_jan_txs
       = Inr (arr_summary (ex_negative_sub # ex_subs) ex_jan_txs,
              rollforward_data (arr_summary (ex_negative_sub # ex_subs) ex_jan_txs))"
  by (simp add: step4_arr_calculations_def all_months_def ex_jan_txs_def Let_def)

lemma ex_negative_issues:
  "validation_issues (arr_summary (ex_negative_sub # ex_subs) ex_jan_txs)
        (rollforward_data (arr_summary (ex_negative_sub # ex_subs) ex_jan_txs)) = Inr []"
  unfolding ex_negative_summary
  by (simp add: validation_issues_def Let_def column_mean_def calculated_ending_def
      rollforward_data_def rollforward_row_def)



subsection \<open>The rollforward chain\<close>

text \<open>
  Claim C1.  Whenever step 4 returns, the chain has at least one bridge record, one per
  month of the summary; the first record has \<open>starting_arr = 0\<close>; every later record
  has the \<open>ending_arr\<close> of the record before it as its \<open>starting_arr\<close>; and every
  record's \<open>ending_arr\<close> is the point-in-time ARR of its month, the sum of \<open>arr_amount\<close>
  over the subscriptions active at the month end, not a sum of bridge components.
\<close>

theorem chain_links_snapshots:
  assumes "step4_arr_calculations subs txs = Inr (summary, chain)"
  shows "1 \<le> length chain \<and> length chain = length (all_months txs)
       \<and> starting_arr (chain ! 0) = 0
       \<and> (\<forall>i. 0 < i \<and> i < length chain \<longrightarrow>
             starting_arr (chain ! i) = ending_arr (chain ! (i - 1)))
       \<and> (\<forall>i < length chain.
             ending_arr (chain ! i) = month_arr subs (month_end_of (all_months txs ! i)))"
proof -
  note d = step4_InrD [OF assms]
  have lenS: "length summary = length (all_months txs)"
    by (simp add: d(2) length_arr_summary)
  have len: "length chain = length (all_months txs)"
    by (simp add: d(3) length_rollforward_data lenS)
  have ne: "summary \<noteq> []"
    using d(1) lenS by auto
  have pos: "1 \<le> length chain"
    using d(1) len by (cases "all_months txs") simp_all
  have first: "starting_arr (chain ! 0) = 0"
    unfolding d(3) using ne by (rule rollforward_first)
  have link: "starting_arr (chain ! i) = ending_arr (chain ! (i - 1))"
    if "0 < i" "i < length chain" for i
    unfolding d(3) using that len lenS by (intro rollforward_link) simp_all
  have snap: "ending_arr (chain ! i) = month_arr subs (month_end_of (all_months txs ! i))"
    if "i < length chain" for i
  proof -
    have i: "i < length (all_months txs)" using that len by simp
    have "ending_arr (chain ! i) = current_arr (summary ! i)"
      unfolding d(3) using i lenS by (intro rollforward_ending) simp
    also have "\<dots> = month_arr subs (month_end_of (all_months txs ! i))"
      unfolding d(2) using i by (rule current_arr_summary)
    finally show ?thesis .
  qed
  from pos len first link snap show ?thesis by blast
qed

theorem chain_links_snapshots_witness:
  "step4_arr_calculations ex_subs ex_txs =
     Inr (arr_summary ex_subs ex_txs, rollforward_data (arr_summary ex_subs ex_txs))
   \<and> length (rollforward_data (arr_summary ex_subs ex_txs)) = 2
   \<and> starting_arr (rollforward_data (arr_summary ex_subs ex_txs) ! 0) = 0
   \<and> starting_arr (rollforward_data (arr_summary ex_subs ex_txs) ! 1)
       = ending_arr (rollforward_data (arr_summary ex_subs ex_txs) ! 0)
   \<and> ending_arr (rollforward_data (arr_summary ex_subs ex_txs) ! 1)
       = month_arr ex_subs (2024, 3, 31)"
proof -
  note t = chain_links_snapshots [OF ex_step4]
  from t have "starting_arr (rollforward_data (arr_summary ex_subs ex_txs) ! 1)
       = ending_arr (rollforward_data (arr_summary ex_subs ex_txs) ! (1 - 1))"
    by (simp add: ex_all_months)
  moreover from t have "ending_arr (rollforward_data (arr_summary ex_subs ex_txs) ! 1)
       = month_arr ex_subs (month_end_of (all_months ex_txs ! 1))"
    by (simp add: ex_all_months)
  ultimately show ?thesis using t ex_step4
    by (simp add: ex_all_months month_end_2024_3)
qed

subsection \<open>Activity at a month end\<close>

text \<open>
  Claim C3.  For a calendar month \<open>m\<close> of year \<open>y\<close>, the date step 4 queries is the last
  calendar day of that month, and the subscriptions it counts are exactly those with
  \<open>start_date \<le>\<close> that day and with no \<open>end_date\<close> or an \<open>end_date\<close> after that day; the
  month's point-in-time ARR and customer count are the sum and the number of these.  A
  subscription whose \<open>end_date\<close> is that very day is not in the active set and adds
  nothing to the month's ARR or customer count.  The \<open>is_active\<close> column of step 3 is
  the same test against the current date.
\<close>

theorem active_at_month_end:
  assumes "1 \<le> m" and "m \<le> 12"
  shows "month_end_of (y, m) = (y, m, days_in_month y m)
    \<and> active_subs_month subs (month_end_of (y, m))
        = filter (\<lambda>s. start_date s \<le> (y, m, days_in_month y m)
                    \<and> (end_date s = None
                        \<or> (\<exists>e. end_date s = Some e \<and> (y, m, days_in_month y m) < e))) subs
    \<and> current_arr (monthly_row subs txs (y, m))
        = sum_list (map arr_amount (active_subs_month subs (month_end_of (y, m))))
    \<and> active_customers (monthly_row subs txs (y, m))
        = length (active_subs_month subs (month_end_of (y, m)))
    \<and> (end_date s = Some (y, m, days_in_month y m) \<longrightarrow>
          s \<notin> set (active_subs_month (s # subs) (month_end_of (y, m)))
        \<and> month_arr (s # subs) (month_end_of (y, m)) = month_arr subs (month_end_of (y, m))
        \<and> month_customers (s # subs) (month_end_of (y, m))
            = month_customers subs (month_end_of (y, m)))
    \<and> (is_active current_date s \<longleftrightarrow>
          start_date s \<le> current_date
          \<and> (end_date s = None \<or> (\<exists>e. end_date s = Some e \<and> current_date < e)))"
proof -
  have me: "month_end_of (y, m) = (y, m, days_in_month y m)"
    using assms by (rule month_end_last_day)
  have flt: "active_subs_month subs (month_end_of (y, m))
        = filter (\<lambda>s. start_date s \<le> (y, m, days_in_month y m)
                    \<and> (end_date s = None
                        \<or> (\<exists>e. end_date s = Some e \<and> (y, m, days_in_month y m) < e))) subs"
    unfolding me active_subs_month_def by (rule filter_cong) (simp_all add: active_on_iff)
  have arr: "current_arr (monthly_row subs txs (y, m))
        = sum_list (map arr_amount (active_subs_month subs (month_end_of (y, m))))"
    by (simp add: monthly_row_snapshot month_arr_def)
  have cnt: "active_customers (monthly_row subs txs (y, m))
        = length (active_subs_month subs (month_end_of (y, m)))"
    by (simp add: monthly_row_snapshot month_customers_def)
  have bnd: "s \<notin> set (active_subs_month (s # subs) (month_end_of (y, m)))
        \<and> month_arr (s # subs) (month_end_of (y, m)) = month_arr subs (month_end_of (y, m))
        \<and> month_customers (s # subs) (month_end_of (y, m))
            = month_customers subs (month_end_of (y, m))"
    if e: "end_date s = Some (y, m, days_in_month y m)"
  proof -
    have na: "\<not> active_on (month_end_of (y, m)) s"
      unfolding me using e by (rule not_active_on_end_date)
    then show ?thesis
      by (simp add: month_arr_Cons month_customers_Cons active_subs_month_def)
  qed
  have act: "is_active current_date s \<longleftrightarrow>
          start_date s \<le> current_date
          \<and> (end_date s = None \<or> (\<exists>e. end_date s = Some e \<and> current_date < e))"
    unfolding is_active_def by (rule active_on_iff)
  from me flt arr cnt bnd act show ?thesis by blast
qed

theorem active_at_month_end_witness:
  "month_end_of (2024, 2) = (2024, 2, 29)
   \<and> end_date ex_boundary_sub = Some (2024, 2, 29)
   \<and> ex_boundary_sub \<notin> set (active_subs_month (ex_boundary_sub # ex_subs) (2024, 2, 29))
   \<and> active_subs_month (ex_boundary_sub # ex_subs) (2024, 1, 31) = ex_boundary_sub # ex_subs
   \<and> month_arr (ex_boundary_sub # ex_subs) (2024, 2, 29) = 1200
   \<and> month_arr (ex_boundary_sub # ex_subs) (2024, 1, 31) = 1800"
proof -
  have m: "(1::nat) \<le> 2" "(2::nat) \<le> 12" by simp_all
  have d: "days_in_month 2024 2 = 29" by (simp add: days_in_month_def is_leap_def)
  note t = active_at_month_end [OF m, where y = 2024 and subs = ex_subs and s = ex_boundary_sub
      and txs = ex_txs, unfolded d]
  have e: "end_date ex_boundary_sub = Some (2024, 2, 29)"
    by (simp add: ex_boundary_sub_def)
  have a: "month_arr ex_subs (2024, 2, 29) = 1200"
    by (simp add: month_arr_def active_subs_month_def active_on_def ex_subs_def)
  have j: "active_subs_month (ex_boundary_sub # ex_subs) (2024, 1, 31) = ex_boundary_sub # ex_subs"
    by (simp add: active_subs_month_def active_on_def ex_subs_def ex_boundary_sub_def)
  have k: "month_arr (ex_boundary_sub # ex_subs) (2024, 1, 31) = 1800"
    unfolding month_arr_def j by (simp add: ex_subs_def ex_boundary_sub_def)
  from t have me: "month_end_of (2024, 2) = (2024, 2, 29)"
    by blast
  from t e have
    "ex_boundary_sub \<notin> set (active_subs_month (ex_boundary_sub # ex_subs) (month_end_of (2024, 2)))
     \<and> month_arr (ex_boundary_sub # ex_subs) (month_end_of (2024, 2))
         = month_arr ex_subs (month_end_of (2024, 2))"
    by blast
  then have
    "ex_boundary_sub \<notin> set (active_subs_month (ex_boundary_sub # ex_subs) (2024, 2, 29))
     \<and> month_arr (ex_boundary_sub # ex_subs) (2024, 2, 29) = 1200"
    unfolding me a .
  with me e j k show ?thesis by blast
qed

subsection \<open>The months of the summary\<close>

text \<open>
  Claim C7 says that the summary has an entry for every calendar month between the
  earliest and the latest transaction.  It does not: the months are those of line 162,
  the months in which some transaction falls.  On the example ledger, with transactions
  in January and March 2024, the summary and the chain have no entry for February.
\<close>

theorem february_missing_counterexample:
  "step4_arr_calculations ex_subs ex_txs
     = Inr (arr_summary ex_subs ex_txs, rollforward_data (arr_summary ex_subs ex_txs))
   \<and> map transaction_date ex_txs = [(2024, 1, 15), (2024, 3, 2), (2024, 3, 5)]
   \<and> map sm_month (arr_summary ex_subs ex_txs) = [(2024, 1), (2024, 3)]
   \<and> map month (rollforward_data (arr_summary ex_subs ex_txs)) = [(2024, 1), (2024, 3)]
   \<and> (2024, 2) \<notin> set (map sm_month (arr_summary ex_subs ex_txs))"
proof -
  have "map sm_month (arr_summary ex_subs ex_txs) = [(2024, 1), (2024, 3)]"
    unfolding ex_summary by simp
  moreover have "map month (rollforward_data (arr_summary ex_subs ex_txs)) = [(2024, 1), (2024, 3)]"
    unfolding ex_chain by simp
  moreover have "map transaction_date ex_txs = [(2024, 1, 15), (2024, 3, 2), (2024, 3, 5)]"
    by (simp add: ex_txs_def)
  ultimately show ?thesis using ex_step4 by simp
qed

text \<open>
  Claim C7, as amended.  The summary, and the chain with it, has exactly one entry for
  each calendar month in which at least one transaction falls, in ascending order; within
  such a month a transaction type without any transaction has the sum zero.
\<close>

theorem months_are_those_with_transactions:
  assumes "step4_arr_calculations subs txs = Inr (summary, chain)"
  shows "map month chain = map sm_month summary
    \<and> distinct (map sm_month summary) \<and> sorted (map sm_month summary)
    \<and> set (map sm_month summary) = year_month ` set txs
    \<and> (\<forall>i < length summary.
          ((\<forall>t \<in> set txs. year_month t = sm_month (summary ! i) \<longrightarrow> transaction_type t \<noteq> ''new'')
             \<longrightarrow> sm_new_arr (summary ! i) = 0)
        \<and> ((\<forall>t \<in> set txs. year_month t = sm_month (summary ! i)
               \<longrightarrow> transaction_type t \<noteq> ''expansion'')
             \<longrightarrow> sm_expansion_arr (summary ! i) = 0)
        \<and> ((\<forall>t \<in> set txs. year_month t = sm_month (summary ! i)
               \<longrightarrow> transaction_type t \<noteq> ''contraction'')
             \<longrightarrow> sm_contraction_arr (summary ! i) = 0)
        \<and> ((\<forall>t \<in> set txs. year_month t = sm_month (summary ! i)
               \<longrightarrow> transaction_type t \<noteq> ''churn'')
             \<longrightarrow> sm_churned_arr (summary ! i) = 0))"
proof -
  note d = step4_InrD [OF assms]
  have months: "map sm_month summary = all_months txs"
    unfolding d(2) by (rule map_sm_month_summary)
  have chain: "map month chain = map sm_month summary"
    unfolding d(3) by (rule map_month_rollforward)
  have zero: "f (summary ! i) = 0"
    if i: "i < length summary"
      and f: "f (summary ! i)
                = type_sum ty (filter (\<lambda>t. year_month t = sm_month (summary ! i)) txs)"
      and none: "\<forall>t \<in> set txs. year_month t = sm_month (summary ! i) \<longrightarrow> transaction_type t \<noteq> ty"
    for i ty and f :: "summary_row \<Rightarrow> rat"
    unfolding f using none by (intro type_sum_none) simp
  have row: "sm_new_arr (summary ! i)
                = type_sum ''new'' (filter (\<lambda>t. year_month t = sm_month (summary ! i)) txs)"
      "sm_expansion_arr (summary ! i)
                = type_sum ''expansion'' (filter (\<lambda>t. year_month t = sm_month (summary ! i)) txs)"
      "sm_contraction_arr (summary ! i)
                = type_sum ''contraction'' (filter (\<lambda>t. year_month t = sm_month (summary ! i)) txs)"
      "sm_churned_arr (summary ! i)
                = type_sum ''churn'' (filter (\<lambda>t. year_month t = sm_month (summary ! i)) txs)"
    if "i < length summary" for i
  proof -
    have i: "i < length (all_months txs)"
      using that by (simp add: d(2) length_arr_summary)
    show "sm_new_arr (summary ! i)
                = type_sum ''new'' (filter (\<lambda>t. year_month t = sm_month (summary ! i)) txs)"
      "sm_expansion_arr (summary ! i)
                = type_sum ''expansion'' (filter (\<lambda>t. year_month t = sm_month (summary ! i)) txs)"
      "sm_contraction_arr (summary ! i)
                = type_sum ''contraction'' (filter (\<lambda>t. year_month t = sm_month (summary ! i)) txs)"
      "sm_churned_arr (summary ! i)
                = type_sum ''churn'' (filter (\<lambda>t. year_month t = sm_month (summary ! i)) txs)"
      unfolding d(2) using i
      by (simp_all only: summary_row_sums monthly_row_sums sm_month_summary)
  qed
  from months all_months_props [of txs] have
    "distinct (map sm_month summary)" "sorted (map sm_month summary)"
    "set (map sm_month summary) = year_month ` set txs"
    by simp_all
  moreover note chain
  moreover have "\<forall>i < length summary.
          ((\<forall>t \<in> set txs. year_month t = sm_month (summary ! i) \<longrightarrow> transaction_type t \<noteq> ''new'')
             \<longrightarrow> sm_new_arr (summary ! i) = 0)
        \<and> ((\<forall>t \<in> set txs. year_month t = sm_month (summary ! i)
               \<longrightarrow> transaction_type t \<noteq> ''expansion'')
             \<longrightarrow> sm_expansion_arr (summary ! i) = 0)
        \<and> ((\<forall>t \<in> set txs. year_month t = sm_month (summary ! i)
               \<longrightarrow> transaction_type t \<noteq> ''contraction'')
             \<longrightarrow> sm_contraction_arr (summary ! i) = 0)
        \<and> ((\<forall>t \<in> set txs. year_month t = sm_month (summary ! i)
               \<longrightarrow> transaction_type t \<noteq> ''churn'')
             \<longrightarrow> sm_churned_arr (summary ! i) = 0)"
    using zero row by blast
  ultimately show ?thesis by blast
qed

theorem months_are_those_with_transactions_witness:
  "step4_arr_calculations ex_subs ex_txs
     = Inr (arr_summary ex_subs ex_txs, rollforward_data (arr_summary ex_subs ex_txs))
   \<and> set (map sm_month (arr_summary ex_subs ex_txs)) = year_month ` set ex_txs
   \<and> sorted (map sm_month (arr_summary ex_subs ex_txs))
   \<and> sm_month (arr_summary ex_subs ex_txs ! 0) = (2024, 1)
   \<and> sm_expansion_arr (arr_summary ex_subs ex_txs ! 0) = 0"
proof -
  note t = months_are_those_with_transactions [OF ex_step4]
  have len: "0 < length (arr_summary ex_subs ex_txs)"
    unfolding ex_summary by simp
  have m: "sm_month (arr_summary ex_subs ex_txs ! 0) = (2024, 1)"
    unfolding ex_summary by simp
  have none: "\<forall>t \<in> set ex_txs. year_month t = sm_month (arr_summary ex_subs ex_txs ! 0)
               \<longrightarrow> transaction_type t \<noteq> ''expansion''"
    unfolding m by (simp add: ex_txs_def year_month_def)
  from t len none have "sm_expansion_arr (arr_summary ex_subs ex_txs ! 0) = 0"
    by blast
  with t m ex_step4 show ?thesis by blast
qed

subsection \<open>Net change\<close>




subsection \<open>ARR per customer\<close>

text \<open>
  Claim C9.  In every row of the monthly summary, if no subscription is active at that
  month's end, then \<open>active_customers\<close> is 0 and \<open>arr_per_customer\<close> is 0: the division
  of line 199 is not evaluated.
\<close>

theorem arr_per_customer_zero_when_no_customers:
  assumes "step4_arr_calculations subs txs = Inr (summary, chain)"
    and "i < length summary"
    and "month_customers subs (month_end_of (sm_month (summary ! i))) = 0"
  shows "active_customers (summary ! i) = 0 \<and> arr_per_customer (summary ! i) = 0"
proof -
  note d = step4_InrD [OF assms(1)]
  have iM: "i < length (all_months txs)"
    using assms(2) by (simp add: d(2) length_arr_summary)
  have m: "sm_month (summary ! i) = all_months txs ! i"
    unfolding d(2) using iM by (rule sm_month_summary)
  have "active_customers (summary ! i) = month_customers subs (month_end_of (all_months txs ! i))"
    unfolding d(2) using iM by (rule customers_summary)
  with assms(3) m have z: "active_customers (summary ! i) = 0"
    by simp
  have "arr_per_customer (summary ! i)
     = (if active_customers (summary ! i) > 0
        then current_arr (summary ! i) / of_nat (active_customers (summary ! i)) else 0)"
    unfolding d(2) using iM by (rule arr_per_customer_summary)
  with z show ?thesis by simp
qed

theorem arr_per_customer_zero_when_no_customers_witness:
  "step4_arr_calculations ex_subs ex_early_txs =
     Inr (arr_summary ex_subs ex_early_txs, rollforward_data (arr_summary ex_subs ex_early_txs))
   \<and> 0 < length (arr_summary ex_subs ex_early_txs)
   \<and> month_customers ex_subs (2023, 12, 31) = 0
   \<and> arr_per_customer (arr_summary ex_subs ex_early_txs ! 0) = 0"
proof -
  have len: "0 < length (arr_summary ex_subs ex_early_txs)"
    unfolding ex_early_summary by simp
  have m: "month_end_of (sm_month (arr_summary ex_subs ex_early_txs ! 0)) = (2023, 12, 31)"
    unfolding ex_early_summary by (simp add: calendar_eval)
  have c: "month_customers ex_subs (2023, 12, 31) = 0"
    by (simp add: month_customers_def active_subs_month_def active_on_def ex_subs_def)
  from arr_per_customer_zero_when_no_customers [OF ex_early_step4 len] m c
  have "arr_per_customer (arr_summary ex_subs ex_early_txs ! 0) = 0"
    by simp
  with ex_early_step4 len c show ?thesis by blast
qed

subsection \<open>Sign of the reduction components\<close>

text \<open>
  Claim C4 says that \<open>contraction_arr\<close> and \<open>churned_arr\<close> are never positive, whatever
  sign the ledger uses for reductions.  The code takes the absolute value of a churn
  amount (lines 132-135), so \<open>churned_arr\<close> is never positive (lemma
  \<open>churned_arr_nonpositive\<close>), but it leaves a contraction amount signed and then
  negates the month's sum (line 221, commented "Negative for waterfall").  On the
  example ledger, whose March contraction is recorded as \<open>-10\<close>, the bridge record of
  March has \<open>contraction_arr = 120\<close>, a positive value.
\<close>

theorem negative_contraction_is_stored_positive:
  "step4_arr_calculations ex_subs ex_txs
     = Inr (arr_summary ex_subs ex_txs, rollforward_data (arr_summary ex_subs ex_txs))
   \<and> map contraction_arr (rollforward_data (arr_summary ex_subs ex_txs)) = [0, 120]
   \<and> map churned_arr (rollforward_data (arr_summary ex_subs ex_txs)) = [0, - 60]"
  using ex_step4 unfolding ex_chain by simp

subsection \<open>Growth rate\<close>




subsection \<open>The rollforward check of the validator\<close>




subsection \<open>Segments\<close>

text \<open>
  Claim C10.  The segment of a subscription is SMB for an \<open>arr_amount\<close> in (0, 600],
  Mid-Market in (600, 2400], Enterprise in (2400, 6000] and Strategic above 6000, so
  that the boundary values 600, 2400 and 6000 fall in the lower segment; an amount of 0
  (or below) gets no label, and the segment aggregates of \<^verbatim>\<open>get_segments\<close> are those of
  the subscriptions with the amounts 0 removed.
\<close>

theorem segment_bins:
  "(customer_segment s = Some SMB \<longleftrightarrow> 0 < arr_amount s \<and> arr_amount s \<le> 600)
   \<and> (customer_segment s = Some Mid_Market \<longleftrightarrow> 600 < arr_amount s \<and> arr_amount s \<le> 2400)
   \<and> (customer_segment s = Some Enterprise \<longleftrightarrow> 2400 < arr_amount s \<and> arr_amount s \<le> 6000)
   \<and> (customer_segment s = Some Strategic \<longleftrightarrow> 6000 < arr_amount s)
   \<and> (customer_segment s = None \<longleftrightarrow> arr_amount s \<le> 0)
   \<and> customer_segment (s\<lparr>arr_amount := 600\<rparr>) = Some SMB
   \<and> customer_segment (s\<lparr>arr_amount := 2400\<rparr>) = Some Mid_Market
   \<and> customer_segment (s\<lparr>arr_amount := 6000\<rparr>) = Some Enterprise
   \<and> customer_segment (s\<lparr>arr_amount := 0\<rparr>) = None
   \<and> get_segments current_date subs
       = get_segments current_date (filter (\<lambda>s. arr_amount s \<noteq> 0) subs)"
proof -
  have "customer_segment s = Some SMB \<longleftrightarrow> 0 < arr_amount s \<and> arr_amount s \<le> 600"
    "customer_segment s = Some Mid_Market \<longleftrightarrow> 600 < arr_amount s \<and> arr_amount s \<le> 2400"
    "customer_segment s = Some Enterprise \<longleftrightarrow> 2400 < arr_amount s \<and> arr_amount s \<le> 6000"
    "customer_segment s = Some Strategic \<longleftrightarrow> 6000 < arr_amount s"
    "customer_segment s = None \<longleftrightarrow> arr_amount s \<le> 0"
    by (auto simp: customer_segment_cases)
  moreover have "customer_segment (s\<lparr>arr_amount := 600\<rparr>) = Some SMB"
    "customer_segment (s\<lparr>arr_amount := 2400\<rparr>) = Some Mid_Market"
    "customer_segment (s\<lparr>arr_amount := 6000\<rparr>) = Some Enterprise"
    "customer_segment (s\<lparr>arr_amount := 0\<rparr>) = None"
    by (simp_all add: customer_segment_cases)
  moreover note get_segments_drop_zero [of current_date subs]
  ultimately show ?thesis by blast
qed

theorem segment_bins_witness:
  "customer_segment ex_zero_sub = None
   \<and> customer_segment (ex_zero_sub\<lparr>arr_amount := 600\<rparr>) = Some SMB
   \<and> is_active (2024, 6, 1) ex_zero_sub
   \<and> get_segments (2024, 6, 1) (ex_zero_sub # ex_subs)
       = [\<lparr>seg = Mid_Market, arr = 1200, customers = 1, percentage = 100\<rparr>]"
proof -
  note t = segment_bins [of ex_zero_sub "(2024, 6, 1)" "ex_zero_sub # ex_subs"]
  have z: "arr_amount ex_zero_sub = 0"
    by (simp add: ex_zero_sub_def)
  have a: "is_active (2024, 6, 1) ex_zero_sub"
    by (simp add: is_active_def active_on_def ex_zero_sub_def)
  have f: "filter (\<lambda>s. arr_amount s \<noteq> 0) (ex_zero_sub # ex_subs) = ex_subs"
    by (simp add: z) (simp add: ex_subs_def)
  from t z have "customer_segment ex_zero_sub = None" by simp
  moreover from t have "customer_segment (ex_zero_sub\<lparr>arr_amount := 600\<rparr>) = Some SMB"
    by blast
  moreover from t have "get_segments (2024, 6, 1) (ex_zero_sub # ex_subs)
       = [\<lparr>seg = Mid_Market, arr = 1200, customers = 1, percentage = 100\<rparr>]"
    unfolding f ex_segments by blast
  ultimately show ?thesis using a by blast
qed

subsection \<open>Faulty subscription records\<close>

text \<open>
  Claim C8 says that a subscription with \<open>end_date \<le> start_date\<close> or with a negative
  \<open>arr_amount\<close> is reported and left out of every aggregate.  The pipeline has no such
  screen: step 2 drops only transactions without a date or an amount.  With the
  subscription \<open>ex_negative_sub\<close> of \<open>-240\<close> next to the one of 1200, the January
  snapshot is 960 for 2 customers, and the validator returns no finding.
\<close>

theorem negative_amount_counted_counterexample:
  "arr_amount ex_negative_sub = - 240
   \<and> step4_arr_calculations (ex_negative_sub # ex_subs) ex_jan_txs
       = Inr (arr_summary (ex_negative_sub # ex_subs) ex_jan_txs,
              rollforward_data (arr_summary (ex_negative_sub # ex_subs) ex_jan_txs))
   \<and> map current_arr (arr_summary (ex_negative_sub # ex_subs) ex_jan_txs) = [960]
   \<and> map active_customers (arr_summary (ex_negative_sub # ex_subs) ex_jan_txs) = [2]
   \<and> validation_issues (arr_summary (ex_negative_sub # ex_subs) ex_jan_txs)
        (rollforward_data (arr_summary (ex_negative_sub # ex_subs) ex_jan_txs)) = Inr []"
proof -
  have "arr_amount ex_negative_sub = - 240"
    by (simp add: ex_negative_sub_def)
  moreover have "map current_arr (arr_summary (ex_negative_sub # ex_subs) ex_jan_txs) = [960]"
    "map active_customers (arr_summary (ex_negative_sub # ex_subs) ex_jan_txs) = [2]"
    unfolding ex_negative_summary by simp_all
  ultimately show ?thesis using ex_negative_step4 ex_negative_issues by blast
qed

text \<open>
  Claim C8, as amended.  A subscription with \<open>end_date \<le> start_date\<close> is active at no
  date, so it is in no active set and adds nothing to a point-in-time ARR, a customer
  count or a segment total.  A subscription with a negative \<open>arr_amount\<close> gets no
  segment label and is left out of the segment totals, but where it is active it is
  counted as a customer and its amount is added to the point-in-time ARR.  Neither is
  reported per record: for every ledger with a transaction the run returns, with at
  most three findings, all of them about aggregates.
\<close>

theorem integrity_faults_not_screened:
  "(\<forall>e. end_date s = Some e \<and> e \<le> start_date s \<longrightarrow>
       \<not> active_on d s
     \<and> month_arr (s # subs) d = month_arr subs d
     \<and> month_customers (s # subs) d = month_customers subs d
     \<and> get_segments current_date (s # subs) = get_segments current_date subs)
   \<and> (arr_amount s < 0 \<longrightarrow>
         customer_segment s = None
       \<and> get_segments current_date (s # subs) = get_segments current_date subs
       \<and> (active_on d s \<longrightarrow>
             month_arr (s # subs) d = arr_amount s + month_arr subs d
           \<and> month_customers (s # subs) d = Suc (month_customers subs d)))
   \<and> (txs \<noteq> [] \<longrightarrow>
         (\<exists>summary chain issues.
             step4_arr_calculations (s # subs) txs = Inr (summary, chain)
           \<and> validation_issues summary chain = Inr issues \<and> length issues \<le> 3))"
proof -
  have inv: "\<not> active_on d s
     \<and> month_arr (s # subs) d = month_arr subs d
     \<and> month_customers (s # subs) d = month_customers subs d
     \<and> get_segments current_date (s # subs) = get_segments current_date subs"
    if "end_date s = Some e" "e \<le> start_date s" for e
  proof -
    have "\<not> active_on d s" "\<not> is_active current_date s"
      unfolding is_active_def using that by (rule inverted_never_active)+
    then show ?thesis
      by (simp add: month_arr_Cons month_customers_Cons get_segments_inactive_Cons)
  qed
  have neg: "customer_segment s = None
       \<and> get_segments current_date (s # subs) = get_segments current_date subs
       \<and> (active_on d s \<longrightarrow>
             month_arr (s # subs) d = arr_amount s + month_arr subs d
           \<and> month_customers (s # subs) d = Suc (month_customers subs d))"
    if "arr_amount s < 0"
  proof -
    have "customer_segment s = None"
      using that by (simp add: customer_segment_cases)
    then show ?thesis
      by (simp add: get_segments_unlabelled_Cons month_arr_Cons month_customers_Cons)
  qed
  have run: "\<exists>summary chain issues.
             step4_arr_calculations (s # subs) txs = Inr (summary, chain)
           \<and> validation_issues summary chain = Inr issues \<and> length issues \<le> 3"
    if "txs \<noteq> []"
    using that by (rule step4_then_step6_returns)
  from inv neg run show ?thesis by blast
qed

theorem integrity_faults_not_screened_witness:
  "end_date ex_inverted_sub = Some (2024, 1, 10)
   \<and> (2024, 1, 10) \<le> start_date ex_inverted_sub
   \<and> month_arr (ex_inverted_sub # ex_subs) (2024, 1, 31) = month_arr ex_subs (2024, 1, 31)
   \<and> arr_amount ex_negative_sub < 0
   \<and> active_on (2024, 1, 31) ex_negative_sub
   \<and> month_arr (ex_negative_sub # ex_subs) (2024, 1, 31)
       = - 240 + month_arr ex_subs (2024, 1, 31)
   \<and> month_customers (ex_negative_sub # ex_subs) (2024, 1, 31)
       = Suc (month_customers ex_subs (2024, 1, 31))
   \<and> get_segments (2024, 6, 1) (ex_negative_sub # ex_subs) = get_segments (2024, 6, 1) ex_subs
   \<and> ex_jan_txs \<noteq> []
   \<and> (\<exists>summary chain issues.
         step4_arr_calculations (ex_negative_sub # ex_subs) ex_jan_txs = Inr (summary, chain)
       \<and> validation_issues summary chain = Inr issues \<and> length issues \<le> 3)"
proof -
  note t1 = integrity_faults_not_screened
    [where s = ex_inverted_sub and subs = ex_subs and d = "(2024, 1, 31)"
       and current_date = "(2024, 6, 1)" and txs = ex_jan_txs]
  note t2 = integrity_faults_not_screened
    [where s = ex_negative_sub and subs = ex_subs and d = "(2024, 1, 31)"
       and current_date = "(2024, 6, 1)" and txs = ex_jan_txs]
  have e: "end_date ex_inverted_sub = Some (2024, 1, 10)"
    "(2024, 1, 10) \<le> start_date ex_inverted_sub"
    by (simp_all add: ex_inverted_sub_def)
  have n: "arr_amount ex_negative_sub < 0" "arr_amount ex_negative_sub = - 240"
    "active_on (2024, 1, 31) ex_negative_sub"
    by (simp_all add: ex_negative_sub_def active_on_def)
  have x: "ex_jan_txs \<noteq> []"
    by (simp add: ex_jan_txs_def)
  from t1 e have "month_arr (ex_inverted_sub # ex_subs) (2024, 1, 31)
      = month_arr ex_subs (2024, 1, 31)"
    by blast
  moreover from t2 n have "month_arr (ex_negative_sub # ex_subs) (2024, 1, 31)
       = - 240 + month_arr ex_subs (2024, 1, 31)"
    "month_customers (ex_negative_sub # ex_subs) (2024, 1, 31)
       = Suc (month_customers ex_subs (2024, 1, 31))"
    "get_segments (2024, 6, 1) (ex_negative_sub # ex_subs) = get_segments (2024, 6, 1) ex_subs"
    by simp_all
  moreover from t2 x have "\<exists>summary chain issues.
         step4_arr_calculations (ex_negative_sub # ex_subs) ex_jan_txs = Inr (summary, chain)
       \<and> validation_issues summary chain = Inr issues \<and> length issues \<le> 3"
    by blast
  ultimately show ?thesis using e n x by blast
qed

end
